theory Spec2Isabelle
  imports Complex_Main "HOL-Library.Multiset" "HOL-Library.Sublist"
begin

section \<open>Search endpoint: \<open>GET /api/collect-videos\<close>\<close>

text \<open>
  The item shape of \<^verbatim>\<open>route.ts\<close> (interface \<^verbatim>\<open>YouTubeVideoItem\<close>): every
  field is optional, so every level is an \<open>option\<close>.
\<close>

record Thumbnail =
  url :: "string option"
  width :: "nat option"
  height :: "nat option"

record Thumbnails =
  medium :: "Thumbnail option"

record Snippet =
  title :: "string option"
  thumbnails :: "Thumbnails option"

record ItemId =
  videoId :: "string option"

record YouTubeVideoItem =
  id' :: "ItemId option"
  snippet :: "Snippet option"

text \<open>The parameters handed to \<^verbatim>\<open>youtube.search.list\<close> (lines 28-32).\<close>

record SearchParams =
  part :: "string list"
  q :: string
  type' :: "string list"
  maxResults :: nat

text \<open>
  What the provider call can throw: the handler (lines 44-50) looks at
  \<^verbatim>\<open>error.response.data.error\<close> (absent, or an object with an optional message) and
  at \<^verbatim>\<open>error.message\<close>.
\<close>

record Thrown =
  responseError :: "string option option"
  message :: "string option"

datatype SearchResponse =
    VideosJson "YouTubeVideoItem list"
  | ErrorJson nat string "string option"

text \<open>
  \<open>VideosJson vs\<close> is \<^verbatim>\<open>NextResponse.json(videos)\<close> (status 200);
  \<open>ErrorJson st msg err\<close> is \<^verbatim>\<open>NextResponse.json({message, error}, {status})\<close>.
\<close>

fun httpStatus :: "SearchResponse \<Rightarrow> nat" where
  "httpStatus (VideosJson vs) = 200"
| "httpStatus (ErrorJson st msg err) = st"

text \<open>JavaScript truthiness of a \<^verbatim>\<open>string | null | undefined\<close> value.\<close>

fun truthy :: "string option \<Rightarrow> bool" where
  "truthy None = False"
| "truthy (Some s) = (s \<noteq> [])"

text \<open>\<^verbatim>\<open>a || b\<close> on such a value, with a string default.\<close>

definition orElse :: "string option \<Rightarrow> string \<Rightarrow> string" where
  "orElse a b = (case a of None \<Rightarrow> b | Some s \<Rightarrow> if s = [] then b else s)"

definition searchParams :: "string option \<Rightarrow> SearchParams" where
  "searchParams qParam =
     \<lparr> part = [''snippet''],
       q = orElse qParam ''trending'',
       type' = [''video''],
       maxResults = 50 \<rparr>"

definition catchMessage :: "Thrown \<Rightarrow> string" where
  "catchMessage e =
     (case responseError e of
        Some m \<Rightarrow> orElse m ''Failed to fetch videos from YouTube.''
      | None \<Rightarrow> orElse (message e) ''Failed to fetch videos from YouTube.'')"

text \<open>
  The handler \<^verbatim>\<open>GET\<close> (lines 14-56). Its environment is explicit:
  \<^item> \<open>apiKey\<close> is \<^verbatim>\<open>process.env.YOUTUBE_API_KEY\<close>;
  \<^item> \<open>qParam\<close> is \<^verbatim>\<open>searchParams.get('q')\<close> (\<open>None\<close> when the parameter is absent);
  \<^item> \<open>provider\<close> is \<^verbatim>\<open>youtube.search.list\<close>: it throws (\<open>Inl\<close>) or returns
    \<^verbatim>\<open>response.data.items\<close>, which may be undefined (\<open>Inr None\<close>);
  \<^item> \<open>shuffle\<close> is what \<^verbatim>\<open>[...allVideos].sort(() => Math.random() - 0.5)\<close> returns.
  The result is the response together with the list of provider calls made.
\<close>

definition GET ::
  "string option \<Rightarrow> string option \<Rightarrow> (SearchParams \<Rightarrow> Thrown + YouTubeVideoItem list option) \<Rightarrow>
   (YouTubeVideoItem list \<Rightarrow> YouTubeVideoItem list) \<Rightarrow> SearchResponse \<times> SearchParams list" where
  "GET apiKey qParam provider shuffle =
     (if \<not> truthy apiKey
      then (ErrorJson 500 ''YouTube API Key is not configured on the server.'' None, [])
      else
        let params = searchParams qParam in
        (case provider params of
           Inl e \<Rightarrow>
             (ErrorJson 500 ''Error fetching videos from YouTube API.'' (Some (catchMessage e)),
              [params])
         | Inr items \<Rightarrow>
             let allVideos = (case items of None \<Rightarrow> [] | Some vs \<Rightarrow> vs);
                 shuffled = shuffle allVideos;
                 videos = take 10 shuffled
             in (VideosJson videos, [params])))"

section \<open>Acquisition endpoint: \<open>POST /api/process-video\<close>\<close>










section \<open>The page component: engine loading, search and the transcode pipeline\<close>

type_synonym bytes = "nat list"

text \<open>The engine's working storage: its named files.\<close>

type_synonym storage = "string \<rightharpoonup> bytes"

text \<open>
  An engine instance (\<^verbatim>\<open>new FFmpeg()\<close>): whether its \<^verbatim>\<open>load\<close> has completed, and
  its working storage.
\<close>

record FFmpeg =
  loaded :: bool
  files :: storage

text \<open>The component state of \<^verbatim>\<open>Home\<close> (lines 65-72).\<close>

record AppState =
  status :: "string option"
  error :: "string option"
  videos :: "YouTubeVideoItem list"
  originalVideoUrl :: "string option"
  trimmedVideoUrl :: "string option"
  searchQuery :: string
  ffmpegRef :: "FFmpeg option"

definition initialState :: AppState where
  "initialState =
     \<lparr> status = None, error = None, videos = [], originalVideoUrl = None,
       trimmedVideoUrl = None, searchQuery = [], ffmpegRef = None \<rparr>"

text \<open>
  The calls a handler makes to the world outside the component, in order:
  \<open>FetchGet p query\<close> is the request to \<open>p\<close> followed by the encoded query,
  \<open>FetchPost p vid\<close> the request to \<open>p\<close> with the JSON body \<^verbatim>\<open>{videoId: vid}\<close>,
  \<open>CreateObjectURL d u\<close> the creation of a blob of content \<open>d\<close> for which the browser
  hands out the URL \<open>u\<close>.
\<close>

datatype Event =
    FetchGet string string
  | FetchPost string string
  | RevokeObjectURL string
  | CreateObjectURL bytes string
  | WriteFile string bytes
  | Exec "string list"
  | ReadFile string

text \<open>
  \<^verbatim>\<open>loadFFmpeg\<close> (lines 91-114). The reference is assigned (line 98) before
  \<^verbatim>\<open>ffmpeg.load\<close> is awaited (line 104); \<open>loadOk\<close> says whether that await resolves.
  \<open>loadFFmpegStarted\<close> is the state while the await is pending.
\<close>

definition loadFFmpegStarted :: "AppState \<Rightarrow> AppState" where
  "loadFFmpegStarted s =
     s\<lparr> status := Some ''Loading FFmpeg...'', error := None,
        ffmpegRef := Some \<lparr> loaded = False, files = Map.empty \<rparr> \<rparr>"

definition loadFFmpeg :: "bool \<Rightarrow> AppState \<Rightarrow> AppState" where
  "loadFFmpeg loadOk s =
     (let s1 = loadFFmpegStarted s in
      if loadOk
      then s1\<lparr> ffmpegRef := Some \<lparr> loaded = True, files = Map.empty \<rparr>, status := None \<rparr>
      else s1\<lparr> error := Some ''Failed to load FFmpeg'' \<rparr>)"



subsection \<open>The two engine commands\<close>

definition trimArgs :: "string list" where
  "trimArgs = [''-i'', ''input.mp4'', ''-t'', ''30'', ''-c'', ''copy'', ''trimmed.mp4'']"

definition encodeArgs :: "string list" where
  "encodeArgs =
     [''-i'', ''trimmed.mp4'',
      ''-vf'', ''fps=30,crop=ih*9/16:ih,scale=720:1280:force_original_aspect_ratio=decrease,pad=720:1280:(ow-iw)/2:(oh-ih)/2'',
      ''-c:v'', ''libx264'',
      ''-preset'', ''medium'',
      ''-crf'', ''22'',
      ''-c:a'', ''aac'',
      ''-b:a'', ''192k'',
      ''-movflags'', ''+faststart'',
      ''output.mp4'']"

text \<open>The value that follows an option in a command, and the command's output file.\<close>

fun optionValue :: "string \<Rightarrow> string list \<Rightarrow> string option" where
  "optionValue k (a # b # rest) = (if a = k then Some b else optionValue k (b # rest))"
| "optionValue k rest = None"

definition outputFile :: "string list \<Rightarrow> string" where
  "outputFile args = last args"

subsection \<open>\<^verbatim>\<open>processVideo\<close>\<close>

text \<open>
  What one invocation meets outside the component:
  \<^item> the acquisition request: it rejects (or its body cannot be read), answers with a
    status that is not ok, or answers with the video bytes;
  \<^item> the object URLs that \<^verbatim>\<open>URL.createObjectURL\<close> hands out;
  \<^item> whether \<^verbatim>\<open>ffmpeg.writeFile\<close> resolves.
  The engine's \<^verbatim>\<open>exec\<close> is a parameter of its own: given a command and the working
  storage it resolves or rejects, leaving a storage behind either way. The value it
  resolves to is not used by the code.
\<close>

datatype FetchResult = FetchRejected | NotOk | Ok bytes

datatype ExecResult = Rejected storage | Resolved storage

record Env =
  fetchResult :: FetchResult
  originalUrl :: string
  writeFileOk :: bool
  trimmedUrl :: string

text \<open>\<^verbatim>\<open>video.id?.videoId\<close>\<close>

definition videoIdOf :: "YouTubeVideoItem \<Rightarrow> string option" where
  "videoIdOf video = (case id' video of None \<Rightarrow> None | Some i \<Rightarrow> videoId i)"

text \<open>\<^verbatim>\<open>if (u) URL.revokeObjectURL(u)\<close> (lines 156 and 188).\<close>

definition revokeIfSet :: "string option \<Rightarrow> Event list" where
  "revokeIfSet u = (if truthy u then [RevokeObjectURL (the u)] else [])"

text \<open>The \<^verbatim>\<open>catch\<close> block (lines 196-200).\<close>

definition catchBlock :: "AppState \<Rightarrow> AppState" where
  "catchBlock s = s\<lparr> error := Some ''Failed to process video'', status := None \<rparr>"

definition withFiles :: "FFmpeg \<Rightarrow> storage \<Rightarrow> AppState \<Rightarrow> AppState" where
  "withFiles ffmpeg fs s = s\<lparr> ffmpegRef := Some (ffmpeg\<lparr> files := fs \<rparr>) \<rparr>"

text \<open>
  \<^verbatim>\<open>processVideo\<close> (lines 132-201), statement by statement. Every awaited call that
  rejects, and the \<^verbatim>\<open>throw\<close> of line 151, ends in the \<^verbatim>\<open>catch\<close> block with the
  state reached so far. \<^verbatim>\<open>writeFile\<close> stores the bytes under the name;
  \<^verbatim>\<open>readFile\<close> rejects when the name is not in the storage.
\<close>

definition processVideo ::
  "(string list \<Rightarrow> storage \<Rightarrow> ExecResult) \<Rightarrow> Env \<Rightarrow> YouTubeVideoItem \<Rightarrow> AppState \<Rightarrow>
   AppState \<times> Event list" where
  "processVideo exec env video s =
     (case ffmpegRef s of
        None \<Rightarrow> (s, [])
      | Some ffmpeg \<Rightarrow>
          if \<not> truthy (videoIdOf video) then (s, [])
          else
            let s1 = s\<lparr> status := Some ''Processing video...'' \<rparr>;
                s2 = s1\<lparr> error := None \<rparr>;
                s3 = s2\<lparr> status := Some ''Downloading video...'' \<rparr>;
                e1 = [FetchPost ''/api/process-video'' (the (videoIdOf video))]
            in
            (case fetchResult env of
               FetchRejected \<Rightarrow> (catchBlock s3, e1)
             | NotOk \<Rightarrow> (catchBlock s3, e1)
             | Ok videoData \<Rightarrow>
                 let e2 = e1 @ revokeIfSet (originalVideoUrl s)
                             @ [CreateObjectURL videoData (originalUrl env)];
                     s4 = s3\<lparr> originalVideoUrl := Some (originalUrl env) \<rparr>;
                     s5 = s4\<lparr> status := Some ''Trimming video...'' \<rparr>;
                     e3 = e2 @ [WriteFile ''input.mp4'' videoData]
                 in
                 if \<not> writeFileOk env then (catchBlock s5, e3)
                 else
                   let fs1 = (files ffmpeg)(''input.mp4'' \<mapsto> videoData);
                       e4 = e3 @ [Exec trimArgs]
                   in
                   (case exec trimArgs fs1 of
                      Rejected fs2 \<Rightarrow> (catchBlock (withFiles ffmpeg fs2 s5), e4)
                    | Resolved fs2 \<Rightarrow>
                        let e5 = e4 @ [Exec encodeArgs] in
                        (case exec encodeArgs fs2 of
                           Rejected fs3 \<Rightarrow> (catchBlock (withFiles ffmpeg fs3 s5), e5)
                         | Resolved fs3 \<Rightarrow>
                             let e6 = e5 @ revokeIfSet (trimmedVideoUrl s)
                                         @ [ReadFile ''output.mp4'']
                             in
                             (case fs3 ''output.mp4'' of
                                None \<Rightarrow> (catchBlock (withFiles ffmpeg fs3 s5), e6)
                              | Some data \<Rightarrow>
                                  ((withFiles ffmpeg fs3 s5)
                                     \<lparr> trimmedVideoUrl := Some (trimmedUrl env),
                                        status := Some ''Ready!'' \<rparr>,
                                   e6 @ [CreateObjectURL data (trimmedUrl env)]))))))"

text \<open>The click handler of a result card (lines 289-293).\<close>

definition onClick ::
  "(string list \<Rightarrow> storage \<Rightarrow> ExecResult) \<Rightarrow> Env \<Rightarrow> YouTubeVideoItem \<Rightarrow> AppState \<Rightarrow>
   AppState \<times> Event list" where
  "onClick exec env video s =
     (if \<not> truthy (status s) then processVideo exec env video s else (s, []))"

subsection \<open>Helper notions used in the statements\<close>

text \<open>
  The storage after the ingest write of line 164.
\<close>

definition ingested :: "FFmpeg \<Rightarrow> bytes \<Rightarrow> storage" where
  "ingested ffmpeg raw = (files ffmpeg)(''input.mp4'' \<mapsto> raw)"

text \<open>
  The calls that reach the engine, as opposed to the network and the object URLs.
\<close>

fun isEngineCall :: "Event \<Rightarrow> bool" where
  "isEngineCall (WriteFile name d) = True"
| "isEngineCall (Exec args) = True"
| "isEngineCall (ReadFile name) = True"
| "isEngineCall e = False"

text \<open>
  A stage after the acquisition fails, that is, the job does not reach
  \<^verbatim>\<open>Ready!\<close>: the ingest write rejects, or the trim command rejects, or the encode
  command rejects, or both commands resolve and \<^verbatim>\<open>output.mp4\<close> is not in the storage,
  so that \<^verbatim>\<open>readFile\<close> (line 189) rejects.
\<close>

definition laterStageFails ::
  "(string list \<Rightarrow> storage \<Rightarrow> ExecResult) \<Rightarrow> Env \<Rightarrow> storage \<Rightarrow> bool" where
  "laterStageFails exec env fs1 =
     (if \<not> writeFileOk env then True
      else case exec trimArgs fs1 of
             Rejected fs2 \<Rightarrow> True
           | Resolved fs2 \<Rightarrow>
               (case exec encodeArgs fs2 of
                  Rejected fs3 \<Rightarrow> True
                | Resolved fs3 \<Rightarrow> fs3 ''output.mp4'' = None))"

definition storageOf :: "ExecResult \<Rightarrow> storage" where
  "storageOf r = (case r of Rejected fs \<Rightarrow> fs | Resolved fs \<Rightarrow> fs)"


section \<open>Concrete inputs\<close>

text \<open>
  Stub collaborators and inputs at which the theorems below are evaluated: a search
  provider returning \<open>n\<close> distinct items, an upstream resolver that always hands out a
  stream, and an engine that resolves every command, writing the command's output file
  (a copy of its input) when the input file is there and readable, and writing nothing
  otherwise.
\<close>

definition stubItem :: "nat \<Rightarrow> YouTubeVideoItem" where
  "stubItem n =
     \<lparr> id' = Some \<lparr> videoId = Some (replicate (Suc n) CHR ''v'') \<rparr>, snippet = None \<rparr>"

definition stubProvider :: "nat \<Rightarrow> SearchParams \<Rightarrow> Thrown + YouTubeVideoItem list option" where
  "stubProvider n params = Inr (Some (map stubItem [0..<n]))"



definition stubVideo :: YouTubeVideoItem where
  "stubVideo = \<lparr> id' = Some \<lparr> videoId = Some ''abc'' \<rparr>, snippet = None \<rparr>"

definition stubReadable :: "bytes \<Rightarrow> bool" where
  "stubReadable d = (d \<noteq> [] \<and> hd d \<noteq> 0)"

definition stubExec :: "string list \<Rightarrow> storage \<Rightarrow> ExecResult" where
  "stubExec args fs =
     (case optionValue ''-i'' args of
        None \<Rightarrow> Resolved fs
      | Some inp \<Rightarrow>
          (case fs inp of
             None \<Rightarrow> Resolved fs
           | Some d \<Rightarrow> if stubReadable d then Resolved (fs(outputFile args \<mapsto> d)) else Resolved fs))"

definition rejectingExec :: "string list \<Rightarrow> storage \<Rightarrow> ExecResult" where
  "rejectingExec args fs = Rejected fs"

definition firstEnv :: Env where
  "firstEnv = \<lparr> fetchResult = Ok [1, 2, 3], originalUrl = ''blob:1'', writeFileOk = True,
                trimmedUrl = ''blob:2'' \<rparr>"

definition secondEnv :: Env where
  "secondEnv = \<lparr> fetchResult = Ok [0, 0], originalUrl = ''blob:3'', writeFileOk = True,
                 trimmedUrl = ''blob:4'' \<rparr>"


definition readyState :: AppState where
  "readyState = loadFFmpeg True initialState"

definition staleState :: AppState where
  "staleState = readyState\<lparr> trimmedVideoUrl := Some ''blob:0'' \<rparr>"


section \<open>Search endpoint: properties\<close>

lemma mset_take_le: "mset (take n xs) \<subseteq># mset xs"
proof -
  have "mset xs = mset (take n xs) + mset (drop n xs)"
    by (metis append_take_drop_id mset_append)
  then show ?thesis by simp
qed

text \<open>
  C6. When the credential is configured and the provider returns \<open>n\<close> items, the
  response is a JSON array of exactly \<open>min n 10\<close> items, the first ten of the shuffled
  copy, each of them one of the provider's items (and none more often than the provider
  returned it). The shuffle is \<^verbatim>\<open>sort\<close> with a random comparator: it reorders the
  copy and neither adds nor drops an element.
\<close>

theorem search_returns_sample_of_ten:
  assumes key: "truthy apiKey"
    and items: "provider (searchParams qParam) = Inr (Some items)"
    and perm: "mset (shuffle items) = mset items"
  shows "\<exists>vs. GET apiKey qParam provider shuffle = (VideosJson vs, [searchParams qParam])
            \<and> vs = take 10 (shuffle items)
            \<and> length vs = min (length items) 10
            \<and> set vs \<subseteq> set items
            \<and> mset vs \<subseteq># mset items"
proof -
  let ?vs = "take 10 (shuffle items)"
  have run: "GET apiKey qParam provider shuffle = (VideosJson ?vs, [searchParams qParam])"
    using key items by (simp add: GET_def Let_def)
  have len: "length (shuffle items) = length items"
    using perm by (rule mset_eq_length)
  have sub: "mset ?vs \<subseteq># mset items"
    using mset_take_le [of 10 "shuffle items"] perm by simp
  have "set ?vs \<subseteq> set (shuffle items)"
    by (rule set_take_subset)
  moreover have "set (shuffle items) = set items"
    using perm by (rule mset_eq_setD)
  ultimately have "set ?vs \<subseteq> set items" by simp
  with run len sub show ?thesis by simp
qed

text \<open>
  At a provider returning 50 items the response has exactly 10 of them.
\<close>

theorem search_returns_sample_of_ten_witness:
  "truthy (Some ''key'')
   \<and> stubProvider 50 (searchParams (Some ''trending'')) = Inr (Some (map stubItem [0..<50]))
   \<and> mset (rev (map stubItem [0..<50])) = mset (map stubItem [0..<50])
   \<and> (\<exists>vs. GET (Some ''key'') (Some ''trending'') (stubProvider 50) rev
               = (VideosJson vs, [searchParams (Some ''trending'')])
          \<and> length vs = 10
          \<and> set vs \<subseteq> set (map stubItem [0..<50]))"
proof -
  have k: "truthy (Some ''key'')" by simp
  have p: "stubProvider 50 (searchParams (Some ''trending'')) = Inr (Some (map stubItem [0..<50]))"
    by (simp add: stubProvider_def)
  have m: "mset (rev (map stubItem [0..<50])) = mset (map stubItem [0..<50])" by simp
  from search_returns_sample_of_ten
         [of "Some ''key''" "stubProvider 50" "Some ''trending''" "map stubItem [0..<50]" rev, OF k p m]
       k p m
  show ?thesis by auto
qed

text \<open>
  The ten items are a sample of the shuffled copy, not the provider's first ten: with a
  shuffle that reverses, twelve items give the last ten.
\<close>

lemma search_not_a_ranked_prefix:
  "fst (GET (Some ''key'') (Some ''trending'') (stubProvider 12) rev)
     = VideosJson (map stubItem [11, 10, 9, 8, 7, 6, 5, 4, 3, 2])
   \<and> take 10 (map stubItem [0..<12]) = map stubItem [0, 1, 2, 3, 4, 5, 6, 7, 8, 9]"
  by code_simp

text \<open>
  C7. When the search credential is absent (unset or empty) the response has status 500
  and a non-empty message; it is never a list of videos, and the provider is not called.
\<close>

theorem missing_credential_is_server_error:
  assumes "\<not> truthy apiKey"
  shows "GET apiKey qParam provider shuffle
           = (ErrorJson 500 ''YouTube API Key is not configured on the server.'' None, [])
         \<and> httpStatus (fst (GET apiKey qParam provider shuffle)) = 500
         \<and> (\<exists>msg err. fst (GET apiKey qParam provider shuffle) = ErrorJson 500 msg err \<and> msg \<noteq> [])
         \<and> (\<forall>vs. fst (GET apiKey qParam provider shuffle) \<noteq> VideosJson vs)"
  using assms by (simp add: GET_def)

theorem missing_credential_is_server_error_witness:
  "\<not> truthy None \<and> \<not> truthy (Some [])
   \<and> GET None (Some ''cats'') (stubProvider 50) rev
       = (ErrorJson 500 ''YouTube API Key is not configured on the server.'' None, [])
   \<and> httpStatus (fst (GET (Some []) None (stubProvider 50) rev)) = 500"
  using missing_credential_is_server_error [of None "Some ''cats''" "stubProvider 50" rev]
    missing_credential_is_server_error [of "Some []" None "stubProvider 50" rev]
  by simp

text \<open>
  C8 (as amended). An empty \<^verbatim>\<open>q\<close> is treated exactly like an absent one: the
  search runs with the fallback term \<^verbatim>\<open>trending\<close>, and the response is the one the
  request without \<^verbatim>\<open>q\<close> gets. The endpoint answers 200 or 500, never a client
  error.
\<close>

theorem empty_query_uses_fallback:
  assumes "\<not> truthy qParam"
  shows "q (searchParams qParam) = ''trending''
         \<and> GET apiKey qParam provider shuffle = GET apiKey None provider shuffle
         \<and> (httpStatus (fst (GET apiKey qParam provider shuffle)) = 200
            \<or> httpStatus (fst (GET apiKey qParam provider shuffle)) = 500)"
proof -
  have same: "searchParams qParam = searchParams None"
    using assms by (cases qParam) (simp_all add: searchParams_def orElse_def)
  have "q (searchParams None) = ''trending''"
    by (simp add: searchParams_def orElse_def)
  moreover have "GET apiKey qParam provider shuffle = GET apiKey None provider shuffle"
    by (simp add: GET_def same)
  moreover have "httpStatus (fst (GET apiKey qParam provider shuffle)) = 200
            \<or> httpStatus (fst (GET apiKey qParam provider shuffle)) = 500"
    by (simp add: GET_def Let_def split: sum.splits)
  ultimately show ?thesis using same by simp
qed

theorem empty_query_uses_fallback_witness:
  "\<not> truthy (Some [])
   \<and> q (searchParams (Some [])) = ''trending''
   \<and> GET (Some ''key'') (Some []) (stubProvider 2) rev = GET (Some ''key'') None (stubProvider 2) rev"
  using empty_query_uses_fallback [of "Some []" "Some ''key''" "stubProvider 2" rev]
  by simp

text \<open>
  C8 as stated fails: a request with the empty query is not signalled as an input error.
  The provider is called with \<^verbatim>\<open>trending\<close> and the answer is a 200 with videos.
\<close>

theorem empty_query_is_input_error_counterexample:
  "GET (Some ''key'') (Some []) (stubProvider 2) (\<lambda>vs. vs)
     = (VideosJson [stubItem 0, stubItem 1],
        [\<lparr> part = [''snippet''], q = ''trending'', type' = [''video''], maxResults = 50 \<rparr>])
   \<and> httpStatus (fst (GET (Some ''key'') (Some []) (stubProvider 2) (\<lambda>vs. vs))) = 200"
  by code_simp

section \<open>Acquisition endpoint: properties\<close>





section \<open>Transcode pipeline: properties\<close>

text \<open>
  The two commands as the code composes them: the trim copies the streams
  (\<^verbatim>\<open>-c copy\<close>) under a duration limit of 30 (\<^verbatim>\<open>-t 30\<close>); the encode carries
  the filter graph, codec, preset, quality constant, audio codec and bitrate, and the
  fast-start flag. What the engine makes of them is outside the component.
\<close>

lemma trim_command_policy:
  "optionValue ''-i'' trimArgs = Some ''input.mp4''
   \<and> optionValue ''-t'' trimArgs = Some ''30''
   \<and> optionValue ''-c'' trimArgs = Some ''copy''
   \<and> optionValue ''-vf'' trimArgs = None
   \<and> optionValue ''-c:v'' trimArgs = None
   \<and> optionValue ''-c:a'' trimArgs = None
   \<and> outputFile trimArgs = ''trimmed.mp4''"
  by (simp add: trimArgs_def outputFile_def)

lemma encode_command_policy:
  "optionValue ''-i'' encodeArgs = Some ''trimmed.mp4''
   \<and> optionValue ''-vf'' encodeArgs
       = Some (''fps=30'' @ '','' @ ''crop=ih*9/16:ih'' @ '',''
               @ ''scale=720:1280:force_original_aspect_ratio=decrease'' @ '',''
               @ ''pad=720:1280:(ow-iw)/2:(oh-ih)/2'')
   \<and> optionValue ''-c:v'' encodeArgs = Some ''libx264''
   \<and> optionValue ''-preset'' encodeArgs = Some ''medium''
   \<and> optionValue ''-crf'' encodeArgs = Some ''22''
   \<and> optionValue ''-b:v'' encodeArgs = None
   \<and> optionValue ''-c:a'' encodeArgs = Some ''aac''
   \<and> optionValue ''-b:a'' encodeArgs = Some ''192k''
   \<and> optionValue ''-movflags'' encodeArgs = Some ''+faststart''
   \<and> outputFile encodeArgs = ''output.mp4''"
  by (simp add: encodeArgs_def outputFile_def)

lemma args_distinct: "trimArgs \<noteq> encodeArgs"
  by (simp add: trimArgs_def encodeArgs_def)

lemma engine_calls_revoke [simp]: "filter isEngineCall (revokeIfSet u) = []"
  by (simp add: revokeIfSet_def)

lemma revoke_no_exec [simp]: "Exec a \<notin> set (revokeIfSet u)"
  by (simp add: revokeIfSet_def)

lemma trim_needs_ingest:
  assumes "processVideo exec env video s = (s', ev)" and "Exec trimArgs \<in> set ev"
  shows "\<exists>ffmpeg raw. ffmpegRef s = Some ffmpeg \<and> fetchResult env = Ok raw \<and> writeFileOk env
           \<and> WriteFile ''input.mp4'' raw \<in> set ev"
  using assms
  by (auto simp: processVideo_def Let_def catchBlock_def args_distinct
      split: option.splits FetchResult.splits ExecResult.splits if_splits)

lemma encode_needs_trim:
  assumes "processVideo exec env video s = (s', ev)" and "Exec encodeArgs \<in> set ev"
  shows "\<exists>ffmpeg raw fs2. ffmpegRef s = Some ffmpeg \<and> fetchResult env = Ok raw \<and> writeFileOk env
           \<and> exec trimArgs (ingested ffmpeg raw) = Resolved fs2 \<and> Exec trimArgs \<in> set ev"
  using assms args_distinct [symmetric]
  by (auto simp: processVideo_def Let_def catchBlock_def ingested_def
      split: option.splits FetchResult.splits ExecResult.splits if_splits)

lemma output_needs_encode:
  assumes "processVideo exec env video s = (s', ev)"
    and "trimmedVideoUrl s' \<noteq> trimmedVideoUrl s \<or> (ev \<noteq> [] \<and> status s' = Some ''Ready!'')"
  shows "\<exists>ffmpeg raw fs2 fs3 data. ffmpegRef s = Some ffmpeg \<and> fetchResult env = Ok raw
           \<and> writeFileOk env
           \<and> exec trimArgs (ingested ffmpeg raw) = Resolved fs2
           \<and> exec encodeArgs fs2 = Resolved fs3
           \<and> fs3 ''output.mp4'' = Some data
           \<and> last ev = CreateObjectURL data (trimmedUrl env)
           \<and> trimmedVideoUrl s' = Some (trimmedUrl env)"
  using assms
  by (auto simp: processVideo_def Let_def catchBlock_def ingested_def withFiles_def
      split: option.splits FetchResult.splits ExecResult.splits if_splits)

lemma engine_calls_in_order:
  assumes "processVideo exec env video s = (s', ev)"
  shows "\<exists>raw. prefix (filter isEngineCall ev)
           [WriteFile ''input.mp4'' raw, Exec trimArgs, Exec encodeArgs, ReadFile ''output.mp4'']"
  using assms
  by (auto simp: processVideo_def Let_def catchBlock_def
      split: option.splits FetchResult.splits ExecResult.splits if_splits)

lemma encode_reads_trim_output:
  "optionValue ''-i'' trimArgs = Some ''input.mp4''
   \<and> optionValue ''-i'' encodeArgs = Some (outputFile trimArgs)
   \<and> outputFile trimArgs = ''trimmed.mp4''
   \<and> outputFile encodeArgs = ''output.mp4''"
  by (simp add: trimArgs_def encodeArgs_def outputFile_def)

text \<open>
  The first job on a freshly loaded engine, with the stub engine: every stage runs, in
  order, and the storage ends with the three files.
\<close>

lemma first_job_run:
  "processVideo stubExec firstEnv stubVideo readyState
     = (readyState\<lparr> status := Some ''Ready!'',
                     originalVideoUrl := Some ''blob:1'',
                     trimmedVideoUrl := Some ''blob:2'',
                     ffmpegRef := Some \<lparr> loaded = True,
                       files = [''input.mp4'' \<mapsto> [1, 2, 3], ''trimmed.mp4'' \<mapsto> [1, 2, 3],
                                ''output.mp4'' \<mapsto> [1, 2, 3]] \<rparr> \<rparr>,
        [FetchPost ''/api/process-video'' ''abc'',
         CreateObjectURL [1, 2, 3] ''blob:1'',
         WriteFile ''input.mp4'' [1, 2, 3],
         Exec trimArgs,
         Exec encodeArgs,
         ReadFile ''output.mp4'',
         CreateObjectURL [1, 2, 3] ''blob:2''])"
  by (simp add: processVideo_def readyState_def loadFFmpeg_def loadFFmpegStarted_def
      initialState_def stubVideo_def videoIdOf_def firstEnv_def revokeIfSet_def Let_def
      stubExec_def stubReadable_def trimArgs_def encodeArgs_def outputFile_def withFiles_def)

text \<open>
  What the awaits of one invocation guarantee. The trim command is issued only when the
  acquisition gave the raw bytes and the write of \<^verbatim>\<open>input.mp4\<close> resolved; the
  encode command is issued only when the call of the trim command, run on the storage
  the write left, resolved; the processed-video URL is set (and the status becomes
  \<^verbatim>\<open>Ready!\<close>) only when the call of the encode command, run on the storage the trim
  left, resolved and \<^verbatim>\<open>output.mp4\<close> was read back. The engine calls are a prefix of
  write, trim, encode, read, and the encode command names as its input the file the trim
  command names as its output. None of this says that a command whose call resolved has
  written its output.
\<close>

lemma stages_follow_resolved_calls:
  assumes run: "processVideo exec env video s = (s', ev)"
  shows "(Exec trimArgs \<in> set ev \<longrightarrow>
            (\<exists>ffmpeg raw. ffmpegRef s = Some ffmpeg \<and> fetchResult env = Ok raw \<and> writeFileOk env
               \<and> WriteFile ''input.mp4'' raw \<in> set ev))
         \<and> (Exec encodeArgs \<in> set ev \<longrightarrow>
            (\<exists>ffmpeg raw fs2. ffmpegRef s = Some ffmpeg \<and> fetchResult env = Ok raw
               \<and> writeFileOk env
               \<and> exec trimArgs (ingested ffmpeg raw) = Resolved fs2 \<and> Exec trimArgs \<in> set ev))
         \<and> (trimmedVideoUrl s' \<noteq> trimmedVideoUrl s \<or> (ev \<noteq> [] \<and> status s' = Some ''Ready!'') \<longrightarrow>
            (\<exists>ffmpeg raw fs2 fs3 data. ffmpegRef s = Some ffmpeg \<and> fetchResult env = Ok raw
               \<and> writeFileOk env
               \<and> exec trimArgs (ingested ffmpeg raw) = Resolved fs2
               \<and> exec encodeArgs fs2 = Resolved fs3
               \<and> fs3 ''output.mp4'' = Some data
               \<and> last ev = CreateObjectURL data (trimmedUrl env)
               \<and> trimmedVideoUrl s' = Some (trimmedUrl env)))
         \<and> (\<exists>raw. prefix (filter isEngineCall ev)
               [WriteFile ''input.mp4'' raw, Exec trimArgs, Exec encodeArgs,
                ReadFile ''output.mp4''])
         \<and> optionValue ''-i'' encodeArgs = Some (outputFile trimArgs)"
  using trim_needs_ingest [OF run] encode_needs_trim [OF run] output_needs_encode [OF run]
    engine_calls_in_order [OF run] encode_reads_trim_output
  by blast

text \<open>
  C3 fails on the code. The value \<^verbatim>\<open>exec\<close> resolves to is discarded and the storage
  is not looked at between the stages, so a trim that resolves without producing
  \<^verbatim>\<open>trimmed.mp4\<close> is followed by the encode all the same. On a freshly loaded
  engine, from a state in which a click reaches \<^verbatim>\<open>processVideo\<close>, bytes the stub
  engine cannot read give: the trim resolves and leaves only \<^verbatim>\<open>input.mp4\<close>, the
  encode command is issued, and the job ends in the handler only because
  \<^verbatim>\<open>readFile\<close> finds no \<^verbatim>\<open>output.mp4\<close>.
\<close>

theorem encode_starts_after_trim_wrote_nothing:
  "status readyState = None
   \<and> onClick stubExec secondEnv stubVideo readyState
       = processVideo stubExec secondEnv stubVideo readyState
   \<and> stubExec trimArgs (ingested \<lparr> loaded = True, files = Map.empty \<rparr> [0, 0])
       = Resolved [''input.mp4'' \<mapsto> [0, 0]]
   \<and> [''input.mp4'' \<mapsto> [0::nat, 0]] ''trimmed.mp4'' = None
   \<and> processVideo stubExec secondEnv stubVideo readyState
       = (readyState\<lparr> error := Some ''Failed to process video'',
                       originalVideoUrl := Some ''blob:3'',
                       ffmpegRef := Some \<lparr> loaded = True,
                         files = [''input.mp4'' \<mapsto> [0, 0]] \<rparr> \<rparr>,
          [FetchPost ''/api/process-video'' ''abc'',
           CreateObjectURL [0, 0] ''blob:3'',
           WriteFile ''input.mp4'' [0, 0],
           Exec trimArgs,
           Exec encodeArgs,
           ReadFile ''output.mp4''])"
proof -
  have a: "status readyState = None"
    by (simp add: readyState_def loadFFmpeg_def loadFFmpegStarted_def initialState_def)
  have b: "stubExec trimArgs (ingested \<lparr> loaded = True, files = Map.empty \<rparr> [0, 0])
       = Resolved [''input.mp4'' \<mapsto> [0, 0]]"
    by (simp add: stubExec_def stubReadable_def ingested_def trimArgs_def)
  have c: "processVideo stubExec secondEnv stubVideo readyState
       = (readyState\<lparr> error := Some ''Failed to process video'',
                       originalVideoUrl := Some ''blob:3'',
                       ffmpegRef := Some \<lparr> loaded = True,
                         files = [''input.mp4'' \<mapsto> [0, 0]] \<rparr> \<rparr>,
          [FetchPost ''/api/process-video'' ''abc'',
           CreateObjectURL [0, 0] ''blob:3'',
           WriteFile ''input.mp4'' [0, 0],
           Exec trimArgs,
           Exec encodeArgs,
           ReadFile ''output.mp4''])"
    by (simp add: processVideo_def readyState_def loadFFmpeg_def loadFFmpegStarted_def
      initialState_def stubVideo_def videoIdOf_def secondEnv_def revokeIfSet_def Let_def
      stubExec_def stubReadable_def trimArgs_def encodeArgs_def outputFile_def withFiles_def
      catchBlock_def)
  from a b c show ?thesis by (simp add: onClick_def)
qed

text \<open>
  The job of the stub engine that fails without any call rejecting: the bytes are
  unreadable, both commands resolve without writing, and \<^verbatim>\<open>readFile\<close> rejects.
  A processed-video URL of an earlier job is revoked on the way (line 188).
\<close>

lemma stale_job_run:
  "processVideo stubExec secondEnv stubVideo staleState
     = (staleState\<lparr> error := Some ''Failed to process video'',
                     originalVideoUrl := Some ''blob:3'',
                     ffmpegRef := Some \<lparr> loaded = True,
                       files = [''input.mp4'' \<mapsto> [0, 0]] \<rparr> \<rparr>,
        [FetchPost ''/api/process-video'' ''abc'',
         CreateObjectURL [0, 0] ''blob:3'',
         WriteFile ''input.mp4'' [0, 0],
         Exec trimArgs,
         Exec encodeArgs,
         RevokeObjectURL ''blob:0'',
         ReadFile ''output.mp4''])"
  by (simp add: processVideo_def staleState_def readyState_def loadFFmpeg_def
      loadFFmpegStarted_def initialState_def stubVideo_def videoIdOf_def secondEnv_def
      revokeIfSet_def Let_def stubExec_def stubReadable_def trimArgs_def encodeArgs_def
      outputFile_def withFiles_def catchBlock_def)

lemma revokeIfSet_mem: "RevokeObjectURL u \<in> set (revokeIfSet x) \<Longrightarrow> x = Some u"
  by (cases x) (auto simp: revokeIfSet_def split: if_splits)

text \<open>
  C9. Failure is per stage. When the acquisition succeeded and a later stage fails (the
  ingest write, the trim or the encode rejects, or the encode leaves no
  \<^verbatim>\<open>output.mp4\<close> to read back), the original-video URL set for this job stays set,
  the processed-video URL in the state is untouched, and the handler records
  \<^verbatim>\<open>Failed to process video\<close> and clears the status. After the original's URL was
  created \<^verbatim>\<open>processVideo\<close> creates no other URL, and the only URL it can revoke is
  the processed-video URL of an earlier job, on the path that reaches
  \<^verbatim>\<open>readFile\<close>; the original's URL is not revoked.
\<close>

theorem original_survives_later_failure:
  assumes ref: "ffmpegRef s = Some ffmpeg"
    and vid: "truthy (videoIdOf video)"
    and got: "fetchResult env = Ok raw"
    and fails: "laterStageFails exec env (ingested ffmpeg raw)"
    and run: "processVideo exec env video s = (s', ev)"
  shows "originalVideoUrl s' = Some (originalUrl env)
         \<and> error s' = Some ''Failed to process video''
         \<and> status s' = None
         \<and> trimmedVideoUrl s' = trimmedVideoUrl s
         \<and> (\<exists>pre post. ev = pre @ CreateObjectURL raw (originalUrl env) # post
                \<and> (\<forall>u. RevokeObjectURL u \<in> set post
                      \<longrightarrow> trimmedVideoUrl s = Some u \<and> ReadFile ''output.mp4'' \<in> set post)
                \<and> (trimmedVideoUrl s \<noteq> Some (originalUrl env)
                      \<longrightarrow> RevokeObjectURL (originalUrl env) \<notin> set post)
                \<and> (\<forall>d u. CreateObjectURL d u \<notin> set post))"
proof -
  let ?pre = "[FetchPost ''/api/process-video'' (the (videoIdOf video))]
                @ revokeIfSet (originalVideoUrl s)"
  from ref vid got fails run
  have st: "originalVideoUrl s' = Some (originalUrl env)
         \<and> error s' = Some ''Failed to process video''
         \<and> status s' = None
         \<and> trimmedVideoUrl s' = trimmedVideoUrl s"
    by (auto simp: processVideo_def Let_def laterStageFails_def ingested_def catchBlock_def
        withFiles_def split: ExecResult.splits option.splits if_splits)
  from ref vid got fails run
  have "\<exists>post. ev = ?pre @ CreateObjectURL raw (originalUrl env) # post
          \<and> (post = [WriteFile ''input.mp4'' raw]
             \<or> post = [WriteFile ''input.mp4'' raw, Exec trimArgs]
             \<or> post = [WriteFile ''input.mp4'' raw, Exec trimArgs, Exec encodeArgs]
             \<or> post = [WriteFile ''input.mp4'' raw, Exec trimArgs, Exec encodeArgs]
                        @ revokeIfSet (trimmedVideoUrl s) @ [ReadFile ''output.mp4''])"
    by (auto simp: processVideo_def Let_def laterStageFails_def ingested_def
        split: ExecResult.splits option.splits if_splits)
  then obtain post where ev: "ev = ?pre @ CreateObjectURL raw (originalUrl env) # post"
    and shape: "post = [WriteFile ''input.mp4'' raw]
             \<or> post = [WriteFile ''input.mp4'' raw, Exec trimArgs]
             \<or> post = [WriteFile ''input.mp4'' raw, Exec trimArgs, Exec encodeArgs]
             \<or> post = [WriteFile ''input.mp4'' raw, Exec trimArgs, Exec encodeArgs]
                        @ revokeIfSet (trimmedVideoUrl s) @ [ReadFile ''output.mp4'']"
    by blast
  have rev: "\<forall>u. RevokeObjectURL u \<in> set post
               \<longrightarrow> trimmedVideoUrl s = Some u \<and> ReadFile ''output.mp4'' \<in> set post"
    using shape by (auto dest: revokeIfSet_mem)
  have cre: "\<forall>d u. CreateObjectURL d u \<notin> set post"
    using shape by (auto simp: revokeIfSet_def)
  from rev have fresh: "trimmedVideoUrl s \<noteq> Some (originalUrl env)
                      \<longrightarrow> RevokeObjectURL (originalUrl env) \<notin> set post"
    by blast
  from ev rev fresh cre
  have "\<exists>pre post. ev = pre @ CreateObjectURL raw (originalUrl env) # post
                \<and> (\<forall>u. RevokeObjectURL u \<in> set post
                      \<longrightarrow> trimmedVideoUrl s = Some u \<and> ReadFile ''output.mp4'' \<in> set post)
                \<and> (trimmedVideoUrl s \<noteq> Some (originalUrl env)
                      \<longrightarrow> RevokeObjectURL (originalUrl env) \<notin> set post)
                \<and> (\<forall>d u. CreateObjectURL d u \<notin> set post)"
    by (intro exI [of _ ?pre] exI [of _ post]) simp
  with st show ?thesis by simp
qed

theorem original_survives_later_failure_witness:
  "ffmpegRef staleState = Some \<lparr> loaded = True, files = Map.empty \<rparr>
   \<and> truthy (videoIdOf stubVideo)
   \<and> fetchResult secondEnv = Ok [0, 0]
   \<and> laterStageFails stubExec secondEnv (ingested \<lparr> loaded = True, files = Map.empty \<rparr> [0, 0])
   \<and> originalVideoUrl (fst (processVideo stubExec secondEnv stubVideo staleState)) = Some ''blob:3''
   \<and> error (fst (processVideo stubExec secondEnv stubVideo staleState))
       = Some ''Failed to process video''
   \<and> status (fst (processVideo stubExec secondEnv stubVideo staleState)) = None
   \<and> trimmedVideoUrl (fst (processVideo stubExec secondEnv stubVideo staleState)) = Some ''blob:0''
   \<and> snd (processVideo stubExec secondEnv stubVideo staleState)
       = [FetchPost ''/api/process-video'' ''abc'',
          CreateObjectURL [0, 0] ''blob:3'',
          WriteFile ''input.mp4'' [0, 0],
          Exec trimArgs,
          Exec encodeArgs,
          RevokeObjectURL ''blob:0'',
          ReadFile ''output.mp4'']"
proof -
  have ref: "ffmpegRef staleState = Some \<lparr> loaded = True, files = Map.empty \<rparr>"
    by (simp add: staleState_def readyState_def loadFFmpeg_def loadFFmpegStarted_def
        initialState_def)
  have vid: "truthy (videoIdOf stubVideo)"
    by (simp add: videoIdOf_def stubVideo_def)
  have got: "fetchResult secondEnv = Ok [0, 0]"
    by (simp add: secondEnv_def)
  have fails: "laterStageFails stubExec secondEnv
                 (ingested \<lparr> loaded = True, files = Map.empty \<rparr> [0, 0])"
    by (simp add: laterStageFails_def stubExec_def stubReadable_def secondEnv_def ingested_def
        trimArgs_def encodeArgs_def outputFile_def)
  have run: "processVideo stubExec secondEnv stubVideo staleState
              = (fst (processVideo stubExec secondEnv stubVideo staleState),
                 snd (processVideo stubExec secondEnv stubVideo staleState))"
    by simp
  have ev: "snd (processVideo stubExec secondEnv stubVideo staleState)
       = [FetchPost ''/api/process-video'' ''abc'',
          CreateObjectURL [0, 0] ''blob:3'',
          WriteFile ''input.mp4'' [0, 0],
          Exec trimArgs,
          Exec encodeArgs,
          RevokeObjectURL ''blob:0'',
          ReadFile ''output.mp4'']"
    by (simp add: stale_job_run)
  have old: "trimmedVideoUrl staleState = Some ''blob:0''"
    by (simp add: staleState_def)
  from original_survives_later_failure [OF ref vid got fails run] ref vid got fails ev old
  show ?thesis by (simp add: secondEnv_def)
qed

text \<open>
  C4 (as amended). Working storage is shared by the jobs of a session, not isolated:
  an invocation runs on the storage the engine instance already holds, the code itself
  replaces only \<^verbatim>\<open>input.mp4\<close> (every other file a previous job left is still there
  when the trim command runs), and the storage it leaves is whatever the engine's trim
  and encode commands make of that. The commands name the fixed outputs
  \<^verbatim>\<open>trimmed.mp4\<close> and \<^verbatim>\<open>output.mp4\<close> and carry no overwrite flag; no file is
  deleted.
\<close>

theorem working_storage_shared:
  assumes ref: "ffmpegRef s = Some ffmpeg"
    and vid: "truthy (videoIdOf video)"
    and got: "fetchResult env = Ok raw"
    and wrote: "writeFileOk env"
  shows "ffmpegRef (fst (processVideo exec env video s))
           = Some (ffmpeg\<lparr> files :=
               (case exec trimArgs (ingested ffmpeg raw) of
                  Rejected fs2 \<Rightarrow> fs2
                | Resolved fs2 \<Rightarrow> storageOf (exec encodeArgs fs2)) \<rparr>)
         \<and> (\<forall>name. name \<noteq> ''input.mp4'' \<longrightarrow> ingested ffmpeg raw name = files ffmpeg name)
         \<and> ingested ffmpeg raw ''input.mp4'' = Some raw
         \<and> ''-y'' \<notin> set trimArgs \<and> ''-y'' \<notin> set encodeArgs
         \<and> outputFile trimArgs = ''trimmed.mp4'' \<and> outputFile encodeArgs = ''output.mp4''"
proof -
  have "ffmpegRef (fst (processVideo exec env video s))
           = Some (ffmpeg\<lparr> files :=
               (case exec trimArgs (ingested ffmpeg raw) of
                  Rejected fs2 \<Rightarrow> fs2
                | Resolved fs2 \<Rightarrow> storageOf (exec encodeArgs fs2)) \<rparr>)"
    using assms
    by (simp add: processVideo_def Let_def catchBlock_def withFiles_def storageOf_def
        ingested_def split: ExecResult.splits option.splits)
  moreover have "''-y'' \<notin> set trimArgs \<and> ''-y'' \<notin> set encodeArgs
         \<and> outputFile trimArgs = ''trimmed.mp4'' \<and> outputFile encodeArgs = ''output.mp4''"
    by (simp add: trimArgs_def encodeArgs_def outputFile_def)
  moreover have "(\<forall>name. name \<noteq> ''input.mp4'' \<longrightarrow> ingested ffmpeg raw name = files ffmpeg name)
         \<and> ingested ffmpeg raw ''input.mp4'' = Some raw"
    by (simp add: ingested_def)
  ultimately show ?thesis by simp
qed

theorem working_storage_shared_witness:
  "ffmpegRef readyState = Some \<lparr> loaded = True, files = Map.empty \<rparr>
   \<and> truthy (videoIdOf stubVideo)
   \<and> fetchResult secondEnv = Ok [0, 0]
   \<and> writeFileOk secondEnv
   \<and> ffmpegRef (fst (processVideo rejectingExec secondEnv stubVideo readyState))
       = Some \<lparr> loaded = True, files = [''input.mp4'' \<mapsto> [0, 0]] \<rparr>"
proof -
  have ref: "ffmpegRef readyState = Some \<lparr> loaded = True, files = Map.empty \<rparr>"
    by (simp add: readyState_def loadFFmpeg_def loadFFmpegStarted_def initialState_def)
  have vid: "truthy (videoIdOf stubVideo)"
    by (simp add: videoIdOf_def stubVideo_def)
  have got: "fetchResult secondEnv = Ok [0, 0]"
    by (simp add: secondEnv_def)
  have wrote: "writeFileOk secondEnv"
    by (simp add: secondEnv_def)
  from working_storage_shared [OF ref vid got wrote, of rejectingExec] ref vid got wrote
  show ?thesis by (simp add: rejectingExec_def ingested_def)
qed

text \<open>
  C4 as stated fails. After a first job the storage still holds its
  \<^verbatim>\<open>trimmed.mp4\<close>, the second job's trim command is given a storage that holds it,
  and neither command asks for an overwrite. A second job whose
  input the engine cannot read (its trim resolves without writing) then encodes the first
  job's \<^verbatim>\<open>trimmed.mp4\<close> and ends \<^verbatim>\<open>Ready!\<close> with the first job's bytes as
  its output; the same second job on a fresh storage ends in the error handler.
\<close>

theorem working_storage_isolated_counterexample:
  "files (the (ffmpegRef (fst (processVideo stubExec firstEnv stubVideo readyState)))) ''trimmed.mp4''
     = Some [1, 2, 3]
   \<and> ingested (the (ffmpegRef (fst (processVideo stubExec firstEnv stubVideo readyState)))) [0, 0]
         ''trimmed.mp4''
       = Some [1, 2, 3]
   \<and> ''-y'' \<notin> set trimArgs \<and> ''-y'' \<notin> set encodeArgs
   \<and> snd (processVideo stubExec secondEnv stubVideo
            (fst (processVideo stubExec firstEnv stubVideo readyState)))
       = [FetchPost ''/api/process-video'' ''abc'',
          RevokeObjectURL ''blob:1'',
          CreateObjectURL [0, 0] ''blob:3'',
          WriteFile ''input.mp4'' [0, 0],
          Exec trimArgs,
          Exec encodeArgs,
          RevokeObjectURL ''blob:2'',
          ReadFile ''output.mp4'',
          CreateObjectURL [1, 2, 3] ''blob:4'']
   \<and> status (fst (processVideo stubExec secondEnv stubVideo
            (fst (processVideo stubExec firstEnv stubVideo readyState)))) = Some ''Ready!''
   \<and> snd (processVideo stubExec secondEnv stubVideo readyState)
       = [FetchPost ''/api/process-video'' ''abc'',
          CreateObjectURL [0, 0] ''blob:3'',
          WriteFile ''input.mp4'' [0, 0],
          Exec trimArgs,
          Exec encodeArgs,
          ReadFile ''output.mp4'']
   \<and> error (fst (processVideo stubExec secondEnv stubVideo readyState))
       = Some ''Failed to process video''"
proof -
  let ?s1 = "readyState\<lparr> status := Some ''Ready!'',
                     originalVideoUrl := Some ''blob:1'',
                     trimmedVideoUrl := Some ''blob:2'',
                     ffmpegRef := Some \<lparr> loaded = True,
                       files = [''input.mp4'' \<mapsto> [1, 2, 3], ''trimmed.mp4'' \<mapsto> [1, 2, 3],
                                ''output.mp4'' \<mapsto> [1, 2, 3]] \<rparr> \<rparr>"
  have ev2: "snd (processVideo stubExec secondEnv stubVideo ?s1)
     = [FetchPost ''/api/process-video'' ''abc'',
          RevokeObjectURL ''blob:1'',
          CreateObjectURL [0, 0] ''blob:3'',
          WriteFile ''input.mp4'' [0, 0],
          Exec trimArgs,
          Exec encodeArgs,
          RevokeObjectURL ''blob:2'',
          ReadFile ''output.mp4'',
          CreateObjectURL [1, 2, 3] ''blob:4'']"
    by (simp add: processVideo_def readyState_def loadFFmpeg_def loadFFmpegStarted_def
      initialState_def stubVideo_def videoIdOf_def secondEnv_def revokeIfSet_def Let_def
      stubExec_def stubReadable_def trimArgs_def encodeArgs_def outputFile_def withFiles_def)
  have st2: "status (fst (processVideo stubExec secondEnv stubVideo ?s1)) = Some ''Ready!''"
    by (simp add: processVideo_def readyState_def loadFFmpeg_def loadFFmpegStarted_def
      initialState_def stubVideo_def videoIdOf_def secondEnv_def revokeIfSet_def Let_def
      stubExec_def stubReadable_def trimArgs_def encodeArgs_def outputFile_def withFiles_def)
  have second_fresh:
    "processVideo stubExec secondEnv stubVideo readyState
     = (readyState\<lparr> error := Some ''Failed to process video'',
                     originalVideoUrl := Some ''blob:3'',
                     ffmpegRef := Some \<lparr> loaded = True,
                       files = [''input.mp4'' \<mapsto> [0, 0]] \<rparr> \<rparr>,
        [FetchPost ''/api/process-video'' ''abc'',
          CreateObjectURL [0, 0] ''blob:3'',
          WriteFile ''input.mp4'' [0, 0],
          Exec trimArgs,
          Exec encodeArgs,
          ReadFile ''output.mp4''])"
    by (simp add: processVideo_def readyState_def loadFFmpeg_def loadFFmpegStarted_def
      initialState_def stubVideo_def videoIdOf_def secondEnv_def revokeIfSet_def Let_def
      stubExec_def stubReadable_def trimArgs_def encodeArgs_def outputFile_def withFiles_def
      catchBlock_def)
  have noflag: "''-y'' \<notin> set trimArgs \<and> ''-y'' \<notin> set encodeArgs"
    by (simp add: trimArgs_def encodeArgs_def)
  show ?thesis
    using ev2 st2 noflag by (simp add: first_job_run second_fresh ingested_def)
qed




end
